theory Spec2Isabelle
  imports Main
begin

section \<open>Data model of main.go\<close>

text \<open>
  A Go slice is either \<open>nil\<close> or a sequence of elements; the program tests
  \<open>positions != nil\<close> and \<open>sensitiveRepo.Files != nil\<close>, so the difference is kept:
  \<open>None\<close> is the nil slice. \<open>go_append\<close> is the builtin \<open>append\<close> with one element,
  whose result is never nil.
\<close>

type_synonym 'a slice = "'a list option"

definition go_append :: "'a slice \<Rightarrow> 'a \<Rightarrow> 'a slice" where
  "go_append s x = (case s of None \<Rightarrow> Some [x] | Some xs \<Rightarrow> Some (xs @ [x]))"

text \<open>The elements of a slice, with nil read as the empty sequence (what \<open>range\<close> sees).\<close>

definition elems :: "'a slice \<Rightarrow> 'a list" where
  "elems s = (case s of None \<Rightarrow> [] | Some xs \<Rightarrow> xs)"

text \<open>The three structs of the program. A byte is a \<open>char\<close>, so \<open>[]byte\<close> and \<open>string\<close>
  are both \<open>string\<close> and the conversion \<open>string(ignoreData)\<close> is the identity.\<close>

record SensitivePos =
  Start :: int
  End :: int

record SensitiveFile =
  Path :: string
  Positions :: "SensitivePos slice"

record SensitiveRepo =
  Name :: string
  Files :: "SensitiveFile slice"

definition credIgnoreFile :: string where
  "credIgnoreFile = ''.credignore''"

section \<open>The collaborators\<close>

text \<open>
  Go's \<open>error\<close> values are opaque here: the program only tests them against nil and logs
  them. A call that returns \<open>(v, err)\<close> is a sum (\<open>Inl\<close> the error), one that returns only
  \<open>err\<close> is an option (\<open>None\<close> is the nil error).
\<close>

type_synonym error = string

text \<open>\<open>github.Repository\<close>: the two fields the program reads, both pointers to strings.\<close>

record Repository =
  Repository_Name :: "string option"
  Repository_CloneURL :: "string option"

text \<open>
  \<open>os.FileInfo\<close>, of which the program calls \<open>IsDir\<close> only, and one call that
  \<open>filepath.Walk\<close> makes to its callback: \<open>(path, info, err)\<close>. \<open>info\<close> is an interface
  value and may be nil (Walk passes nil when it could not stat the entry).
\<close>

datatype FileInfo = FileInfo (IsDir: bool)

record WalkCall =
  wc_path :: string
  wc_info :: "FileInfo option"
  wc_err :: "error option"

text \<open>
  Everything outside the program: the GitHub client, go-git, the file system and the
  path functions of the standard library. Each field answers one call by its
  arguments. \<open>filepath_Walk_calls root\<close> is the sequence of calls \<open>filepath.Walk(root, fn)\<close>
  makes while \<open>fn\<close> keeps returning nil.
\<close>

record env =
  github_ListByOrg :: "string \<Rightarrow> error + Repository list"
  os_Getwd :: "error + string"
  ioutil_TempDir :: "string \<Rightarrow> string \<Rightarrow> error + string"
  git_PlainCloneContext :: "string \<Rightarrow> string \<Rightarrow> error option"
  os_RemoveAll :: "string \<Rightarrow> error option"
  os_Stat :: "string \<Rightarrow> error option"
  ioutil_ReadFile :: "string \<Rightarrow> error + string"
  filepath_Walk_calls :: "string \<Rightarrow> WalkCall list"
  filepath_Join :: "string list \<Rightarrow> string"
  filepath_Rel :: "string \<Rightarrow> string \<Rightarrow> error + string"
  filepath_Base :: "string \<Rightarrow> string"

text \<open>The effects of a run, in order: every call to a collaborator and every log line.\<close>

datatype level = ErrorLevel | WarnLevel | InfoLevel

datatype event =
    E_ListByOrg string
  | E_Getwd
  | E_TempDir string string
  | E_PlainCloneContext string string
  | E_RemoveAll string
  | E_Stat string
  | E_ReadFile string
  | E_Walk string
  | E_Log level string

text \<open>How a call ends: it returns an error value (nil or not), or it panics.\<close>

datatype exit = Returns "error option" | Panics

section \<open>HasSensitive\<close>

text \<open>\<open>func HasSensitive(fileData []byte) []SensitivePos { return nil }\<close>\<close>

definition HasSensitive :: "string \<Rightarrow> SensitivePos slice" where
  "HasSensitive fileData = None"

section \<open>The exclusion manifest\<close>

text \<open>\<open>strings.Split(s, "\n")\<close>: the fields between newlines, one more than there are
  newlines (so the empty string gives one empty field).\<close>

fun strings_Split :: "string \<Rightarrow> string list" where
  "strings_Split [] = [[]]"
| "strings_Split (c # s) =
     (if c = CHR 0x0A then [] # strings_Split s
      else (case strings_Split s of [] \<Rightarrow> [[c]] | l # ls \<Rightarrow> (c # l) # ls))"

text \<open>The loop over \<open>ignoreList\<close>: \<open>if f != "" && f[0] != '#' { filesToIgnore[f] = struct{}{} }\<close>.\<close>

fun addIgnoreList :: "string list \<Rightarrow> string set \<Rightarrow> string set" where
  "addIgnoreList [] filesToIgnore = filesToIgnore"
| "addIgnoreList (l # ignoreList) filesToIgnore =
     addIgnoreList ignoreList
       (if l \<noteq> [] \<and> hd l \<noteq> CHR ''#'' then insert l filesToIgnore else filesToIgnore)"

text \<open>
  Lines 147 to 166: the map \<open>filesToIgnore\<close> of one repository, as a set of keys, with
  the effects of building it. The manifest's own key is added only when \<open>os.Stat\<close>
  succeeds, and it is \<open>filepath.Join(repoName, credIgnoreFile)\<close>.
\<close>

definition filesToIgnoreOf :: "env \<Rightarrow> string \<Rightarrow> string \<Rightarrow> string set \<times> event list" where
  "filesToIgnoreOf env tmpDir repoName =
     (let ignoreFile = filepath_Join env [tmpDir, repoName, credIgnoreFile] in
      case os_Stat env ignoreFile of
        Some err \<Rightarrow> ({}, [E_Stat ignoreFile])
      | None \<Rightarrow>
          (let filesToIgnore = {filepath_Join env [repoName, credIgnoreFile]} in
           case ioutil_ReadFile env ignoreFile of
             Inl err \<Rightarrow> (filesToIgnore, [E_Stat ignoreFile, E_ReadFile ignoreFile])
           | Inr ignoreData \<Rightarrow>
               (addIgnoreList (strings_Split ignoreData) filesToIgnore,
                [E_Stat ignoreFile, E_ReadFile ignoreFile,
                 E_Log InfoLevel ''Found %s file in repo '%s'.''])))"

section \<open>The walk of one repository\<close>

text \<open>
  The closure \<open>f\<close> of lines 173 to 204, a \<open>filepath.WalkFunc\<close>. It captures \<open>repoDir\<close>,
  \<open>filesToIgnore\<close> and the variable \<open>sensitiveRepo\<close>, which it updates: the model takes
  \<open>sensitiveRepo\<close> and returns it. The detector it calls is a parameter, \<open>HasSensitive\<close>
  in the program. \<open>info.IsDir()\<close> on a nil \<open>info\<close> panics; on every other path \<open>f\<close>
  returns nil.
\<close>

definition walkFunc ::
  "(string \<Rightarrow> SensitivePos slice) \<Rightarrow> env \<Rightarrow> string \<Rightarrow> string set \<Rightarrow>
   SensitiveRepo \<Rightarrow> WalkCall \<Rightarrow> SensitiveRepo \<times> event list \<times> exit" where
  "walkFunc detect env repoDir filesToIgnore sensitiveRepo c =
     (case wc_info c of
        None \<Rightarrow> (sensitiveRepo, [], Panics)
      | Some info \<Rightarrow>
          if IsDir info then (sensitiveRepo, [], Returns None)
          else
            (case filepath_Rel env repoDir (wc_path c) of
               Inl err \<Rightarrow>
                 (sensitiveRepo,
                  [E_Log WarnLevel ''WalkFunc: found sensitive file '%s', rel path error: ''],
                  Returns None)
             | Inr relPath \<Rightarrow>
                 if relPath \<in> filesToIgnore then (sensitiveRepo, [], Returns None)
                 else
                   (case ioutil_ReadFile env (wc_path c) of
                      Inl err \<Rightarrow>
                        (sensitiveRepo,
                         [E_ReadFile (wc_path c), E_Log ErrorLevel ''WalkFunc: ReadFile: ''],
                         Returns None)
                    | Inr fileData \<Rightarrow>
                        (let positions = detect fileData in
                         if positions \<noteq> None
                         then (sensitiveRepo\<lparr>Files :=
                                 go_append (Files sensitiveRepo)
                                   \<lparr>Path = relPath, Positions = positions\<rparr>\<rparr>,
                               [E_ReadFile (wc_path c)], Returns None)
                         else (sensitiveRepo, [E_ReadFile (wc_path c)], Returns None)))))"

text \<open>
  \<open>filepath.Walk\<close> over the calls it makes: it stops at the first call whose callback
  returns an error and returns that error; a panic of the callback ends it. (The program's
  callback never returns \<open>filepath.SkipDir\<close>, which is left out.)
\<close>

fun filepath_Walk ::
  "(SensitiveRepo \<Rightarrow> WalkCall \<Rightarrow> SensitiveRepo \<times> event list \<times> exit) \<Rightarrow>
   WalkCall list \<Rightarrow> SensitiveRepo \<Rightarrow> SensitiveRepo \<times> event list \<times> exit" where
  "filepath_Walk fn [] s = (s, [], Returns None)"
| "filepath_Walk fn (c # cs) s =
     (case fn s c of
        (s', evs, Returns None) \<Rightarrow>
          (case filepath_Walk fn cs s' of (s'', evs', x) \<Rightarrow> (s'', evs @ evs', x))
      | (s', evs, x) \<Rightarrow> (s', evs, x))"

section \<open>CrawlOrg\<close>

text \<open>
  Lines 141 to 205, what the loop does with a repository once it is cloned: remove
  \<open>.git\<close> (a failure is logged, no more), build \<open>filesToIgnore\<close>, then walk \<open>repoDir\<close>
  with \<open>f\<close> from an empty \<open>sensitiveRepo\<close>. The result is \<open>sensitiveRepo\<close> after the walk,
  the effects, and how \<open>filepath.Walk\<close> ended.
\<close>

definition scanRepo ::
  "(string \<Rightarrow> SensitivePos slice) \<Rightarrow> env \<Rightarrow> string \<Rightarrow> string \<Rightarrow>
   SensitiveRepo \<times> event list \<times> exit" where
  "scanRepo detect env tmpDir repoName =
     (let repoDir = filepath_Join env [tmpDir, repoName];
          gitDir = filepath_Join env [tmpDir, repoName, ''.git''];
          evGit =
            E_RemoveAll gitDir #
            (case os_RemoveAll env gitDir of
               Some err \<Rightarrow> [E_Log ErrorLevel ''CrawlOrg: RemoveAll .git: '']
             | None \<Rightarrow> []);
          ign = filesToIgnoreOf env tmpDir repoName;
          w = filepath_Walk (walkFunc detect env repoDir (fst ign))
                (filepath_Walk_calls env repoDir) \<lparr>Name = repoName, Files = None\<rparr>
      in (fst w, evGit @ snd ign @ E_Walk repoDir # fst (snd w), snd (snd w)))"

text \<open>
  The body of the loop over \<open>repos\<close> (lines 122 to 213) for one repository, on the
  named result \<open>srs\<close>: the new \<open>srs\<close>, the effects, and whether the body panicked. Every
  \<open>continue\<close> leaves \<open>srs\<close> as it was.
\<close>

definition loopBody ::
  "(string \<Rightarrow> SensitivePos slice) \<Rightarrow> env \<Rightarrow> string \<Rightarrow> Repository \<Rightarrow>
   SensitiveRepo slice \<Rightarrow> SensitiveRepo slice \<times> event list \<times> bool" where
  "loopBody detect env tmpDir repo srs =
     (case Repository_Name repo of
        None \<Rightarrow> (srs, [], False)
      | Some repoName \<Rightarrow>
          if repoName = [] then (srs, [], False)
          else
            (case Repository_CloneURL repo of
               None \<Rightarrow> (srs, [], False)
             | Some cloneURL \<Rightarrow>
                 if cloneURL = [] then (srs, [], False)
                 else
                   (let repoDir = filepath_Join env [tmpDir, repoName] in
                    case git_PlainCloneContext env repoDir cloneURL of
                      Some err \<Rightarrow>
                        (srs,
                         [E_PlainCloneContext repoDir cloneURL,
                          E_Log ErrorLevel ''CrawlOrg: PlainCloneContext: ''],
                         False)
                    | None \<Rightarrow>
                        (case scanRepo detect env tmpDir repoName of
                           (sensitiveRepo, evs, Panics) \<Rightarrow>
                             (srs, E_PlainCloneContext repoDir cloneURL # evs, True)
                         | (sensitiveRepo, evs, Returns (Some err)) \<Rightarrow>
                             (srs,
                              E_PlainCloneContext repoDir cloneURL # evs @
                              [E_Log ErrorLevel ''CrawlOrg: Walk: ''],
                              False)
                         | (sensitiveRepo, evs, Returns None) \<Rightarrow>
                             (if Files sensitiveRepo \<noteq> None
                              then go_append srs sensitiveRepo else srs,
                              E_PlainCloneContext repoDir cloneURL # evs, False)))))"

text \<open>The loop \<open>for _, repo := range repos\<close>; a panic ends it.\<close>

fun forRepos ::
  "(string \<Rightarrow> SensitivePos slice) \<Rightarrow> env \<Rightarrow> string \<Rightarrow> Repository list \<Rightarrow>
   SensitiveRepo slice \<Rightarrow> SensitiveRepo slice \<times> event list \<times> bool" where
  "forRepos detect env tmpDir [] srs = (srs, [], False)"
| "forRepos detect env tmpDir (repo # repos) srs =
     (case loopBody detect env tmpDir repo srs of
        (srs', evs, True) \<Rightarrow> (srs', evs, True)
      | (srs', evs, False) \<Rightarrow>
          (case forRepos detect env tmpDir repos srs' of
             (srs'', evs', p) \<Rightarrow> (srs'', evs @ evs', p)))"

text \<open>
  What a run of \<open>CrawlOrg\<close> leaves: the value of the named result \<open>srs\<close> when the function
  ends, whether it ended in a panic (then the caller receives nothing), and the effects.
\<close>

record run =
  report :: "SensitiveRepo slice"
  panicked :: bool
  trace :: "event list"

text \<open>
  \<open>CrawlOrg\<close> with the detector as a parameter. The three early returns leave \<open>srs\<close> nil.
  \<open>defer os.RemoveAll(tmpDir)\<close> evaluates its argument where it stands, before \<open>tmpDir\<close>
  is overwritten by its base name, and runs last, after a return and after a panic alike;
  its result is dropped.
\<close>

definition CrawlOrg_with ::
  "(string \<Rightarrow> SensitivePos slice) \<Rightarrow> env \<Rightarrow> string \<Rightarrow> run" where
  "CrawlOrg_with detect env orgName =
     (case github_ListByOrg env orgName of
        Inl err \<Rightarrow>
          \<lparr>report = None, panicked = False,
           trace = [E_ListByOrg orgName, E_Log ErrorLevel ''CrawlOrg: ListByOrg: '']\<rparr>
      | Inr repos \<Rightarrow>
          (case os_Getwd env of
             Inl err \<Rightarrow>
               \<lparr>report = None, panicked = False,
                trace = [E_ListByOrg orgName, E_Getwd, E_Log ErrorLevel ''CrawlOrg: Getwd: '']\<rparr>
           | Inr cwd \<Rightarrow>
               (case ioutil_TempDir env cwd ''tmp_'' of
                  Inl err \<Rightarrow>
                    \<lparr>report = None, panicked = False,
                     trace = [E_ListByOrg orgName, E_Getwd, E_TempDir cwd ''tmp_'',
                              E_Log ErrorLevel ''CrawlOrg: TempDir: '']\<rparr>
                | Inr tmpDir \<Rightarrow>
                    (case forRepos detect env (filepath_Base env tmpDir) repos None of
                       (srs, evs, p) \<Rightarrow>
                         \<lparr>report = srs, panicked = p,
                          trace = [E_ListByOrg orgName, E_Getwd, E_TempDir cwd ''tmp_''] @ evs @
                                  [E_RemoveAll tmpDir]\<rparr>))))"

text \<open>The program: \<open>CrawlOrg\<close> calls \<open>HasSensitive\<close>.\<close>

definition CrawlOrg :: "env \<Rightarrow> string \<Rightarrow> run" where
  "CrawlOrg env orgName = CrawlOrg_with HasSensitive env orgName"

section \<open>Notions used to state the properties\<close>

text \<open>
  The report of one listed repository's scan, when there is one: the repository has a
  name and a clone URL, both non-empty, its clone succeeds and the walk of its tree
  returns nil. It is \<open>sensitiveRepo\<close> as the walk leaves it, findings or not.
\<close>

definition scanned ::
  "(string \<Rightarrow> SensitivePos slice) \<Rightarrow> env \<Rightarrow> string \<Rightarrow> Repository \<Rightarrow>
   SensitiveRepo option" where
  "scanned detect env tmpDir repo =
     (case Repository_Name repo of
        None \<Rightarrow> None
      | Some repoName \<Rightarrow>
          (case Repository_CloneURL repo of
             None \<Rightarrow> None
           | Some cloneURL \<Rightarrow>
               if repoName \<noteq> [] \<and> cloneURL \<noteq> [] \<and>
                  git_PlainCloneContext env (filepath_Join env [tmpDir, repoName]) cloneURL = None \<and>
                  snd (snd (scanRepo detect env tmpDir repoName)) = Returns None
               then Some (fst (scanRepo detect env tmpDir repoName))
               else None))"

text \<open>The temporary directory a run creates, when it gets that far.\<close>

definition createdTmpDir :: "env \<Rightarrow> string \<Rightarrow> string option" where
  "createdTmpDir env orgName =
     (case github_ListByOrg env orgName of
        Inl err \<Rightarrow> None
      | Inr repos \<Rightarrow>
          (case os_Getwd env of
             Inl err \<Rightarrow> None
           | Inr cwd \<Rightarrow>
               (case ioutil_TempDir env cwd ''tmp_'' of
                  Inl err \<Rightarrow> None
                | Inr tmpDir \<Rightarrow> Some tmpDir)))"

section \<open>A small organization, for the examples\<close>

text \<open>
  Paths as \<open>path/filepath\<close> treats them on clean, slash-separated relative paths: \<open>Join\<close>
  drops empty elements and puts a slash between the others, \<open>Rel\<close> removes the base path
  and the slash after it, \<open>Base\<close> is the last element.
\<close>

definition example_Join :: "string list \<Rightarrow> string" where
  "example_Join es =
     foldr (\<lambda>a b. if b = [] then a else a @ ''/'' @ b) (filter (\<lambda>a. a \<noteq> []) es) []"

definition example_Rel :: "string \<Rightarrow> string \<Rightarrow> error + string" where
  "example_Rel basepath targpath =
     (if take (length basepath + 1) targpath = basepath @ ''/''
      then Inr (drop (length basepath + 1) targpath)
      else Inl ''Rel: cannot make the path relative'')"

definition example_Base :: "string \<Rightarrow> string" where
  "example_Base p = rev (takeWhile (\<lambda>c. c \<noteq> CHR ''/'') (rev p))"

text \<open>A detector that does find something: a file that starts with \<open>k\<close> is one secret.\<close>

definition example_detect :: "string \<Rightarrow> SensitivePos slice" where
  "example_detect fileData =
     (if fileData \<noteq> [] \<and> hd fileData = CHR ''k''
      then Some [\<lparr>Start = 0, End = int (length fileData)\<rparr>] else None)"

text \<open>
  Three repositories. \<open>R1\<close> clones and holds \<open>a.lock\<close> (cannot be read), \<open>config.yml\<close>
  (a secret) and \<open>notes\<close> (no secret); the clone of \<open>R2\<close> fails; \<open>R3\<close> clones and holds a
  manifest that excludes its only other file, \<open>fake.key\<close>, and a second manifest one
  directory down.
\<close>

definition example_R1 :: Repository where
  "example_R1 = \<lparr>Repository_Name = Some ''R1'', Repository_CloneURL = Some ''u1''\<rparr>"

definition example_R2 :: Repository where
  "example_R2 = \<lparr>Repository_Name = Some ''R2'', Repository_CloneURL = Some ''u2''\<rparr>"

definition example_R3 :: Repository where
  "example_R3 = \<lparr>Repository_Name = Some ''R3'', Repository_CloneURL = Some ''u3''\<rparr>"

definition example_repos :: "Repository list" where
  "example_repos = [example_R1, example_R2, example_R3]"


definition example_dir :: "string \<Rightarrow> WalkCall" where
  "example_dir p = \<lparr>wc_path = p, wc_info = Some (FileInfo True), wc_err = None\<rparr>"

definition example_file :: "string \<Rightarrow> WalkCall" where
  "example_file p = \<lparr>wc_path = p, wc_info = Some (FileInfo False), wc_err = None\<rparr>"

definition example_env :: env where
  "example_env =
     \<lparr>github_ListByOrg = (\<lambda>orgName. Inr example_repos),
      os_Getwd = Inr ''/w'',
      ioutil_TempDir = (\<lambda>dir prefix. Inr (dir @ ''/'' @ prefix @ ''1'')),
      git_PlainCloneContext = (\<lambda>dir url. if url = ''u2'' then Some ''clone failed'' else None),
      os_RemoveAll = (\<lambda>p. None),
      os_Stat = (\<lambda>p. if p = ''tmp_1/R3/.credignore'' then None else Some ''no such file''),
      ioutil_ReadFile =
        (\<lambda>p. if p = ''tmp_1/R1/config.yml'' then Inr ''k9Xv2LqT7bYh4WzR''
             else if p = ''tmp_1/R1/notes'' then Inr ''to do''
             else if p = ''tmp_1/R3/.credignore'' then Inr (''# fake'' @ [CHR 0x0A] @ ''fake.key'')
             else if p = ''tmp_1/R3/fake.key'' then Inr ''k000''
             else Inl ''cannot read''),
      filepath_Walk_calls =
        (\<lambda>root. if root = ''tmp_1/R1''
                then [example_dir ''tmp_1/R1'', example_file ''tmp_1/R1/a.lock'',
                      example_file ''tmp_1/R1/config.yml'', example_file ''tmp_1/R1/notes'']
                else if root = ''tmp_1/R3''
                then [example_dir ''tmp_1/R3'', example_file ''tmp_1/R3/.credignore'',
                      example_dir ''tmp_1/R3/R3'', example_file ''tmp_1/R3/R3/.credignore'',
                      example_file ''tmp_1/R3/fake.key'']
                else []),
      filepath_Join = example_Join,
      filepath_Rel = example_Rel,
      filepath_Base = example_Base\<rparr>"

text \<open>The same organization on a file system where no entry of a tree can be examined:
  \<open>filepath.Walk\<close> then calls \<open>f\<close> with a nil \<open>info\<close>.\<close>

definition example_env_lstat :: env where
  "example_env_lstat =
     example_env\<lparr>filepath_Walk_calls :=
       (\<lambda>root. [\<lparr>wc_path = root, wc_info = None, wc_err = Some ''lstat failed''\<rparr>])\<rparr>"

section \<open>The example organization, evaluated\<close>

lemma example_env_fields:
  "github_ListByOrg example_env orgName = Inr example_repos"
  "os_Getwd example_env = Inr ''/w''"
  "ioutil_TempDir example_env dir prefix = Inr (dir @ ''/'' @ prefix @ ''1'')"
  "git_PlainCloneContext example_env d url = (if url = ''u2'' then Some ''clone failed'' else None)"
  "os_RemoveAll example_env p = None"
  "filepath_Join example_env = example_Join"
  "filepath_Rel example_env = example_Rel"
  "filepath_Base example_env = example_Base"
  by (simp_all add: example_env_def)

lemma example_scan_R1:
  "scanRepo example_detect example_env ''tmp_1'' ''R1'' =
     (\<lparr>Name = ''R1'', Files = Some [\<lparr>Path = ''config.yml'',
         Positions = Some [\<lparr>Start = 0, End = 16\<rparr>]\<rparr>]\<rparr>,
      [E_RemoveAll ''tmp_1/R1/.git'', E_Stat ''tmp_1/R1/.credignore'',
       E_Walk ''tmp_1/R1'', E_ReadFile ''tmp_1/R1/a.lock'',
       E_Log ErrorLevel ''WalkFunc: ReadFile: '', E_ReadFile ''tmp_1/R1/config.yml'',
       E_ReadFile ''tmp_1/R1/notes''],
      Returns None)"
  by (simp add: scanRepo_def filesToIgnoreOf_def walkFunc_def example_env_def example_Join_def
      example_Rel_def example_detect_def example_dir_def example_file_def credIgnoreFile_def
      go_append_def Let_def)

lemma example_scan_R3:
  "scanRepo example_detect example_env ''tmp_1'' ''R3'' =
     (\<lparr>Name = ''R3'', Files = None\<rparr>,
      [E_RemoveAll ''tmp_1/R3/.git'', E_Stat ''tmp_1/R3/.credignore'',
       E_ReadFile ''tmp_1/R3/.credignore'',
       E_Log InfoLevel ''Found %s file in repo '%s'.'',
       E_Walk ''tmp_1/R3'', E_ReadFile ''tmp_1/R3/.credignore''],
      Returns None)"
  by (simp add: scanRepo_def filesToIgnoreOf_def walkFunc_def example_env_def example_Join_def
      example_Rel_def example_detect_def example_dir_def example_file_def credIgnoreFile_def
      go_append_def Let_def)

lemma example_run:
  "CrawlOrg_with example_detect example_env ''org'' =
     \<lparr>report = Some [\<lparr>Name = ''R1'', Files = Some [\<lparr>Path = ''config.yml'',
         Positions = Some [\<lparr>Start = 0, End = 16\<rparr>]\<rparr>]\<rparr>],
      panicked = False,
      trace =
        [E_ListByOrg ''org'', E_Getwd, E_TempDir ''/w'' ''tmp_'',
         E_PlainCloneContext ''tmp_1/R1'' ''u1'',
         E_RemoveAll ''tmp_1/R1/.git'', E_Stat ''tmp_1/R1/.credignore'',
         E_Walk ''tmp_1/R1'', E_ReadFile ''tmp_1/R1/a.lock'',
         E_Log ErrorLevel ''WalkFunc: ReadFile: '', E_ReadFile ''tmp_1/R1/config.yml'',
         E_ReadFile ''tmp_1/R1/notes'',
         E_PlainCloneContext ''tmp_1/R2'' ''u2'',
         E_Log ErrorLevel ''CrawlOrg: PlainCloneContext: '',
         E_PlainCloneContext ''tmp_1/R3'' ''u3'',
         E_RemoveAll ''tmp_1/R3/.git'', E_Stat ''tmp_1/R3/.credignore'',
         E_ReadFile ''tmp_1/R3/.credignore'',
         E_Log InfoLevel ''Found %s file in repo '%s'.'',
         E_Walk ''tmp_1/R3'', E_ReadFile ''tmp_1/R3/.credignore'',
         E_RemoveAll ''/w/tmp_1'']\<rparr>"
proof -
  have base: "example_Base ''/w/tmp_1'' = ''tmp_1''"
    by (simp add: example_Base_def)
  have body: "forRepos example_detect example_env ''tmp_1'' example_repos None =
     (Some [\<lparr>Name = ''R1'', Files = Some [\<lparr>Path = ''config.yml'',
         Positions = Some [\<lparr>Start = 0, End = 16\<rparr>]\<rparr>]\<rparr>],
      [E_PlainCloneContext ''tmp_1/R1'' ''u1'',
         E_RemoveAll ''tmp_1/R1/.git'', E_Stat ''tmp_1/R1/.credignore'',
         E_Walk ''tmp_1/R1'', E_ReadFile ''tmp_1/R1/a.lock'',
         E_Log ErrorLevel ''WalkFunc: ReadFile: '', E_ReadFile ''tmp_1/R1/config.yml'',
         E_ReadFile ''tmp_1/R1/notes'',
         E_PlainCloneContext ''tmp_1/R2'' ''u2'',
         E_Log ErrorLevel ''CrawlOrg: PlainCloneContext: '',
         E_PlainCloneContext ''tmp_1/R3'' ''u3'',
         E_RemoveAll ''tmp_1/R3/.git'', E_Stat ''tmp_1/R3/.credignore'',
         E_ReadFile ''tmp_1/R3/.credignore'',
         E_Log InfoLevel ''Found %s file in repo '%s'.'',
         E_Walk ''tmp_1/R3'', E_ReadFile ''tmp_1/R3/.credignore''], False)"
    by (simp add: example_repos_def example_R1_def example_R2_def example_R3_def loopBody_def example_scan_R1 example_scan_R3 go_append_def
        example_env_fields example_Join_def)
  show ?thesis
    by (simp add: CrawlOrg_with_def example_env_fields base body)
qed

lemma example_run_R3_R1:
  "fst (forRepos example_detect example_env ''tmp_1'' [example_R3, example_R1] None) =
     Some [\<lparr>Name = ''R1'', Files = Some [\<lparr>Path = ''config.yml'',
         Positions = Some [\<lparr>Start = 0, End = 16\<rparr>]\<rparr>]\<rparr>]"
  "snd (snd (forRepos example_detect example_env ''tmp_1'' [example_R3, example_R1] None)) = False"
  by (simp_all add: example_R1_def example_R3_def loopBody_def example_scan_R1 example_scan_R3
      go_append_def example_env_fields example_Join_def)

lemma example_lstat_panics:
  "panicked (CrawlOrg_with example_detect example_env_lstat ''org'')"
  by (simp add: CrawlOrg_with_def example_env_lstat_def example_env_def example_repos_def example_R1_def
      loopBody_def scanRepo_def walkFunc_def Let_def split_beta)

lemma example_ignore_R1: "fst (filesToIgnoreOf example_env ''tmp_1'' ''R1'') = {}"
  by (simp add: filesToIgnoreOf_def example_env_def example_Join_def credIgnoreFile_def Let_def)

lemma example_ignore_R3:
  "fst (filesToIgnoreOf example_env ''tmp_1'' ''R3'') = {''fake.key'', ''R3/.credignore''}"
  by (simp add: filesToIgnoreOf_def example_env_def example_Join_def credIgnoreFile_def Let_def)

lemma example_manifest_lines:
  "strings_Split (''# fake'' @ [CHR 0x0A] @ ''fake.key'') = [''# fake'', ''fake.key'']"
  by simp

section \<open>Lemmas on the walk and the loop\<close>

lemma walkFunc_HasSensitive_state:
  "fst (walkFunc HasSensitive env repoDir ig s c) = s"
  by (simp add: walkFunc_def HasSensitive_def split: option.splits sum.splits)

lemma filepath_Walk_state_inv:
  assumes "\<And>s c. fst (fn s c) = s"
  shows "fst (filepath_Walk fn cs s) = s"
proof (induction cs arbitrary: s)
  case Nil
  show ?case by simp
next
  case (Cons c cs)
  obtain s' evs x where fn: "fn s c = (s', evs, x)" by (cases "fn s c") auto
  with assms [of s c] have s': "s' = s" by simp
  show ?case
    using Cons.IH [of s] fn s'
    by (auto split: prod.splits exit.splits option.splits)
qed

lemma loopBody_HasSensitive_srs:
  "fst (loopBody HasSensitive env tmpDir repo srs) = srs"
proof -
  have "Files (fst (filepath_Walk (walkFunc HasSensitive env d ig) cs
          \<lparr>Name = n, Files = None\<rparr>)) = None" for d ig cs n
    by (simp add: filepath_Walk_state_inv walkFunc_HasSensitive_state)
  then show ?thesis
    by (simp add: loopBody_def scanRepo_def Let_def split: option.splits exit.splits)
qed

lemma forRepos_HasSensitive_srs:
  "fst (forRepos HasSensitive env tmpDir repos srs) = srs"
proof (induction repos arbitrary: srs)
  case Nil
  show ?case by simp
next
  case (Cons repo repos)
  obtain srs' evs p where b: "loopBody HasSensitive env tmpDir repo srs = (srs', evs, p)"
    by (cases "loopBody HasSensitive env tmpDir repo srs") auto
  with loopBody_HasSensitive_srs [of env tmpDir repo srs] have "srs' = srs" by simp
  with b Cons.IH [of srs] show ?case
    by (cases p) (auto split: prod.splits)
qed

lemma walkFunc_no_clone:
  "E_PlainCloneContext d u \<notin> set (fst (snd (walkFunc detect env repoDir ig s c)))"
  by (simp add: walkFunc_def Let_def split: option.splits sum.splits)

lemma filepath_Walk_events:
  assumes "\<And>s c. ev \<notin> set (fst (snd (fn s c)))"
  shows "ev \<notin> set (fst (snd (filepath_Walk fn cs s)))"
proof (induction cs arbitrary: s)
  case Nil
  show ?case by simp
next
  case (Cons c cs)
  obtain s' evs x where fn: "fn s c = (s', evs, x)" by (cases "fn s c") auto
  with assms [of s c] have "ev \<notin> set evs" by simp
  with fn Cons.IH [of s'] show ?case
    by (auto split: prod.splits exit.splits option.splits)
qed

lemma scanRepo_no_clone:
  "E_PlainCloneContext d u \<notin> set (fst (snd (scanRepo detect env tmpDir repoName)))"
proof -
  have "E_PlainCloneContext d u \<notin> set (snd (filesToIgnoreOf env tmpDir repoName))"
    by (simp add: filesToIgnoreOf_def Let_def split: option.splits sum.splits)
  moreover have "E_PlainCloneContext d u \<notin>
      set (fst (snd (filepath_Walk (walkFunc detect env rd ig) cs s0)))" for rd ig cs s0
    by (rule filepath_Walk_events) (rule walkFunc_no_clone)
  ultimately show ?thesis
    by (simp add: scanRepo_def Let_def split: option.splits)
qed

lemma loopBody_clone_dirs:
  assumes "E_PlainCloneContext d u \<in> set (fst (snd (loopBody detect env tmpDir repo srs)))"
  shows "\<exists>repoName. d = filepath_Join env [tmpDir, repoName]"
proof -
  have "E_PlainCloneContext d u \<notin> set (fst (snd (scanRepo detect env tmpDir n)))" for n
    by (rule scanRepo_no_clone)
  then have "E_PlainCloneContext d u \<notin> set evs"
    if "scanRepo detect env tmpDir n = (sr, evs, x)" for n sr evs x
    using that by (metis fst_conv snd_conv)
  with assms show ?thesis
    by (auto simp: loopBody_def Let_def split: option.splits if_splits prod.splits exit.splits)
qed

lemma forRepos_clone_dirs:
  "E_PlainCloneContext d u \<in> set (fst (snd (forRepos detect env tmpDir repos srs))) \<Longrightarrow>
   \<exists>repoName. d = filepath_Join env [tmpDir, repoName]"
proof (induction repos arbitrary: srs)
  case Nil
  then show ?case by simp
next
  case (Cons repo repos)
  obtain srs' evs p where b: "loopBody detect env tmpDir repo srs = (srs', evs, p)"
    by (cases "loopBody detect env tmpDir repo srs") auto
  show ?case
  proof (cases "E_PlainCloneContext d u \<in> set evs")
    case True
    with b loopBody_clone_dirs [of d u detect env tmpDir repo srs] show ?thesis by simp
  next
    case False
    with Cons.prems b have "E_PlainCloneContext d u \<in>
        set (fst (snd (forRepos detect env tmpDir repos srs')))"
      by (cases p) (auto split: prod.splits)
    then show ?thesis by (rule Cons.IH)
  qed
qed

lemma addIgnoreList_eq:
  "addIgnoreList ls m = m \<union> {l \<in> set ls. l \<noteq> [] \<and> hd l \<noteq> CHR ''#''}"
  by (induction ls arbitrary: m) auto

lemma filepath_Walk_skip:
  assumes "\<And>s. fst (fn s c) = s" and "\<And>s. snd (snd (fn s c)) = Returns None"
  shows "fst (filepath_Walk fn (cs1 @ c # cs2) s) = fst (filepath_Walk fn (cs1 @ cs2) s) \<and>
         snd (snd (filepath_Walk fn (cs1 @ c # cs2) s)) = snd (snd (filepath_Walk fn (cs1 @ cs2) s))"
proof (induction cs1 arbitrary: s)
  case Nil
  obtain evs where "fn s c = (s, evs, Returns None)"
    using assms [of s] by (cases "fn s c") auto
  then show ?case by (simp add: split_beta)
next
  case (Cons a cs1)
  obtain s' evs x where fn: "fn s a = (s', evs, x)" by (cases "fn s a") auto
  show ?case
  proof (cases "x = Returns None")
    case True
    with fn Cons.IH [of s'] show ?thesis by (simp add: split_beta)
  next
    case False
    with fn show ?thesis by (cases x) (auto split: option.splits)
  qed
qed

lemma forRepos_skip:
  assumes "\<And>srs. fst (loopBody detect env tmpDir b srs) = srs"
      and "\<And>srs. snd (snd (loopBody detect env tmpDir b srs)) = False"
  shows "fst (forRepos detect env tmpDir (rs1 @ b # rs2) srs) =
           fst (forRepos detect env tmpDir (rs1 @ rs2) srs) \<and>
         snd (snd (forRepos detect env tmpDir (rs1 @ b # rs2) srs)) =
           snd (snd (forRepos detect env tmpDir (rs1 @ rs2) srs))"
proof (induction rs1 arbitrary: srs)
  case Nil
  obtain evs where "loopBody detect env tmpDir b srs = (srs, evs, False)"
    using assms [of srs] by (cases "loopBody detect env tmpDir b srs") auto
  then show ?case by (simp add: split_beta)
next
  case (Cons a rs1)
  obtain srs' evs p where body: "loopBody detect env tmpDir a srs = (srs', evs, p)"
    by (cases "loopBody detect env tmpDir a srs") auto
  with Cons.IH [of srs'] show ?case by (cases p) (simp_all add: split_beta)
qed

lemma loopBody_clone_fails:
  assumes "Repository_Name b = Some repoName" and "repoName \<noteq> []"
      and "Repository_CloneURL b = Some cloneURL" and "cloneURL \<noteq> []"
      and "git_PlainCloneContext env (filepath_Join env [tmpDir, repoName]) cloneURL = Some err"
  shows "loopBody detect env tmpDir b srs =
           (srs, [E_PlainCloneContext (filepath_Join env [tmpDir, repoName]) cloneURL,
                  E_Log ErrorLevel ''CrawlOrg: PlainCloneContext: ''], False)"
  using assms by (simp add: loopBody_def)

lemma filesToIgnoreOf_listing [simp]:
  "filesToIgnoreOf (env\<lparr>github_ListByOrg := l\<rparr>) = filesToIgnoreOf env"
  by (rule ext)+ (simp add: filesToIgnoreOf_def Let_def split: option.splits sum.splits)

lemma walkFunc_listing [simp]:
  "walkFunc detect (env\<lparr>github_ListByOrg := l\<rparr>) = walkFunc detect env"
  by (rule ext)+ (simp add: walkFunc_def Let_def split: option.splits sum.splits)

lemma scanRepo_listing [simp]:
  "scanRepo detect (env\<lparr>github_ListByOrg := l\<rparr>) = scanRepo detect env"
  by (rule ext)+ (simp add: scanRepo_def Let_def split: option.splits)

lemma loopBody_listing [simp]:
  "loopBody detect (env\<lparr>github_ListByOrg := l\<rparr>) = loopBody detect env"
  by (rule ext)+ (simp add: loopBody_def Let_def split: option.splits)

lemma forRepos_listing [simp]:
  "forRepos detect (env\<lparr>github_ListByOrg := l\<rparr>) tmpDir repos srs = forRepos detect env tmpDir repos srs"
  by (induction repos arbitrary: srs) simp_all

lemma CrawlOrg_with_listing:
  assumes "os_Getwd env = Inr cwd" and "ioutil_TempDir env cwd ''tmp_'' = Inr tmpDir"
  shows "report (CrawlOrg_with detect (env\<lparr>github_ListByOrg := \<lambda>orgName. Inr repos\<rparr>) orgName) =
           fst (forRepos detect env (filepath_Base env tmpDir) repos None)"
    and "panicked (CrawlOrg_with detect (env\<lparr>github_ListByOrg := \<lambda>orgName. Inr repos\<rparr>) orgName) =
           snd (snd (forRepos detect env (filepath_Base env tmpDir) repos None))"
  using assms by (simp_all add: CrawlOrg_with_def split_beta)

lemma elems_go_append: "elems (go_append s x) = elems s @ [x]"
  by (simp add: elems_def go_append_def split: option.splits)

lemma loopBody_elems:
  assumes "\<not> snd (snd (loopBody detect env tmpDir repo srs))"
  shows "elems (fst (loopBody detect env tmpDir repo srs)) =
           elems srs @ filter (\<lambda>sr. Files sr \<noteq> None)
             (case scanned detect env tmpDir repo of None \<Rightarrow> [] | Some sr \<Rightarrow> [sr])"
proof -
  obtain sr evs x where sc: "\<And>n. scanRepo detect env tmpDir n =
      (fst (scanRepo detect env tmpDir n), fst (snd (scanRepo detect env tmpDir n)),
       snd (snd (scanRepo detect env tmpDir n)))"
    by simp
  show ?thesis
    using assms
    by (auto simp: loopBody_def scanned_def Let_def split_beta elems_go_append
        split: option.splits exit.splits if_splits)
qed

lemma forRepos_elems:
  "\<not> snd (snd (forRepos detect env tmpDir repos srs)) \<Longrightarrow>
   elems (fst (forRepos detect env tmpDir repos srs)) =
     elems srs @ filter (\<lambda>sr. Files sr \<noteq> None)
       (List.map_filter (scanned detect env tmpDir) repos)"
proof (induction repos arbitrary: srs)
  case Nil
  show ?case by (simp add: List.map_filter_simps)
next
  case (Cons repo repos)
  obtain srs' evs p where body: "loopBody detect env tmpDir repo srs = (srs', evs, p)"
    by (cases "loopBody detect env tmpDir repo srs") auto
  with Cons.prems have np: "\<not> p" by (cases p) auto
  with body Cons.prems have rest: "\<not> snd (snd (forRepos detect env tmpDir repos srs'))"
    by (simp add: split_beta)
  from body np loopBody_elems [of detect env tmpDir repo srs]
  have "elems srs' = elems srs @ filter (\<lambda>sr. Files sr \<noteq> None)
          (case scanned detect env tmpDir repo of None \<Rightarrow> [] | Some sr \<Rightarrow> [sr])"
    by simp
  with Cons.IH [OF rest] body np show ?case
    by (cases "scanned detect env tmpDir repo") (simp_all add: split_beta List.map_filter_simps)
qed

lemma walkFunc_Files_nonempty:
  "Files s \<noteq> Some [] \<Longrightarrow> Files (fst (walkFunc detect env repoDir ig s c)) \<noteq> Some []"
  by (auto simp: walkFunc_def Let_def go_append_def split: option.splits sum.splits)

lemma filepath_Walk_Files_nonempty:
  "Files s \<noteq> Some [] \<Longrightarrow>
   Files (fst (filepath_Walk (walkFunc detect env repoDir ig) cs s)) \<noteq> Some []"
proof (induction cs arbitrary: s)
  case Nil
  then show ?case by simp
next
  case (Cons c cs)
  obtain s' evs x where fn: "walkFunc detect env repoDir ig s c = (s', evs, x)"
    by (cases "walkFunc detect env repoDir ig s c") auto
  with walkFunc_Files_nonempty [OF Cons.prems, of detect env repoDir ig c]
  have s': "Files s' \<noteq> Some []" by simp
  from Cons.IH [OF s'] fn s' show ?case
    by (auto split: prod.splits exit.splits option.splits)
qed

lemma scanned_Files_nonempty:
  "scanned detect env tmpDir repo = Some sr \<Longrightarrow> Files sr \<noteq> Some []"
  by (auto simp: scanned_def scanRepo_def Let_def filepath_Walk_Files_nonempty
      split: option.splits if_splits)

text \<open>
  The manifest: every line that is neither empty nor starts with \<open>#\<close> is in
  \<open>filesToIgnore\<close> as it stands, and \<open>f\<close> reads a file exactly when its path relative to
  \<open>repoDir\<close> is not in \<open>filesToIgnore\<close>.
\<close>

lemma manifest_lines_in_filesToIgnore:
  assumes "os_Stat env (filepath_Join env [tmpDir, repoName, credIgnoreFile]) = None"
      and "ioutil_ReadFile env (filepath_Join env [tmpDir, repoName, credIgnoreFile]) = Inr ignoreData"
  shows "{l \<in> set (strings_Split ignoreData). l \<noteq> [] \<and> hd l \<noteq> CHR ''#''}
           \<subseteq> fst (filesToIgnoreOf env tmpDir repoName)"
  using assms by (auto simp: filesToIgnoreOf_def Let_def addIgnoreList_eq)

lemma walkFunc_reads_iff_not_ignored:
  assumes "wc_info c = Some info" and "\<not> IsDir info"
      and "filepath_Rel env repoDir (wc_path c) = Inr relPath"
  shows "(E_ReadFile (wc_path c) \<in> set (fst (snd (walkFunc detect env repoDir ig s c)))) =
         (relPath \<notin> ig)"
  using assms by (simp add: walkFunc_def Let_def split: sum.splits)


text \<open>
  A run returns, that is it does not panic, when every call \<open>filepath.Walk\<close> makes carries
  a \<open>FileInfo\<close>.
\<close>

lemma walkFunc_returns:
  "wc_info c \<noteq> None \<Longrightarrow> snd (snd (walkFunc detect env repoDir ig s c)) = Returns None"
  by (auto simp: walkFunc_def Let_def split: option.splits sum.splits)

lemma filepath_Walk_returns:
  "(\<forall>c \<in> set cs. wc_info c \<noteq> None) \<Longrightarrow>
   snd (snd (filepath_Walk (walkFunc detect env repoDir ig) cs s)) = Returns None"
proof (induction cs arbitrary: s)
  case Nil
  show ?case by simp
next
  case (Cons c cs)
  obtain s' evs x where fn: "walkFunc detect env repoDir ig s c = (s', evs, x)"
    by (cases "walkFunc detect env repoDir ig s c") auto
  with walkFunc_returns [of c detect env repoDir ig s] Cons.prems
  have "x = Returns None" by simp
  with fn Cons.IH [of s'] Cons.prems show ?case by (simp add: split_beta)
qed

lemma loopBody_returns:
  assumes "\<forall>root. \<forall>c \<in> set (filepath_Walk_calls env root). wc_info c \<noteq> None"
  shows "\<not> snd (snd (loopBody detect env tmpDir repo srs))"
proof -
  have "snd (snd (scanRepo detect env tmpDir n)) = Returns None" for n
    using assms by (simp add: scanRepo_def Let_def filepath_Walk_returns)
  then show ?thesis
    by (auto simp: loopBody_def Let_def split_beta split: option.splits exit.splits)
qed

lemma forRepos_returns:
  assumes "\<forall>root. \<forall>c \<in> set (filepath_Walk_calls env root). wc_info c \<noteq> None"
  shows "\<not> snd (snd (forRepos detect env tmpDir repos srs))"
proof (induction repos arbitrary: srs)
  case Nil
  show ?case by simp
next
  case (Cons repo repos)
  obtain srs' evs p where body: "loopBody detect env tmpDir repo srs = (srs', evs, p)"
    by (cases "loopBody detect env tmpDir repo srs") auto
  with loopBody_returns [OF assms, of detect tmpDir repo srs] have "\<not> p" by simp
  with body Cons.IH [of srs'] show ?case by (simp add: split_beta)
qed

lemma CrawlOrg_with_returns:
  assumes "\<forall>root. \<forall>c \<in> set (filepath_Walk_calls env root). wc_info c \<noteq> None"
  shows "\<not> panicked (CrawlOrg_with detect env orgName)"
  using forRepos_returns [OF assms]
  by (simp add: CrawlOrg_with_def split_beta split: sum.splits)

section \<open>The claims\<close>

text \<open>
  C1. A file of random base64 text must come back from the detector with at least one
  position inside the random run. The function's own comment promises the positions of
  random strings; the body returns nil. At a 40 byte base64 string with no byte repeated
  (the largest entropy 40 bytes can have) \<open>HasSensitive\<close> returns nil: no finding.
\<close>

theorem HasSensitive_random_base64_nil:
  "length ''k9Xv2LqT7bYh4WzR1mNc8PdS5fGj3KaE6uHoZxQw'' = 40 \<and>
   distinct ''k9Xv2LqT7bYh4WzR1mNc8PdS5fGj3KaE6uHoZxQw'' \<and>
   HasSensitive ''k9Xv2LqT7bYh4WzR1mNc8PdS5fGj3KaE6uHoZxQw'' = None"
  by (simp add: HasSensitive_def)

text \<open>
  C2. \<open>HasSensitive\<close> returns nil for every input, so for every listing and every
  content of the repositories the named result \<open>srs\<close> of \<open>CrawlOrg\<close> is nil when the
  function ends: no repository is ever appended to the report.
\<close>

theorem CrawlOrg_report_nil:
  "HasSensitive fileData = None \<and> report (CrawlOrg env orgName) = None"
proof
  show "HasSensitive fileData = None" by (simp add: HasSensitive_def)
next
  have "fst (forRepos HasSensitive env t repos None) = None" for t repos
    by (rule forRepos_HasSensitive_srs)
  then show "report (CrawlOrg env orgName) = None"
    by (simp add: CrawlOrg_def CrawlOrg_with_def split_beta split: sum.splits)
qed

text \<open>
  C3. A repository is in the report exactly when its scan produced at least one finding.
  For a run that gets past the listing and the temporary directory and does not panic,
  the report is, in order, the scans of the listed repositories (those that have a name
  and a clone URL, clone, and are walked to the end) whose \<open>Files\<close> is not nil; and no
  entry of the report has an empty \<open>Files\<close>. The detector is arbitrary.
\<close>

theorem report_iff_findings:
  assumes "github_ListByOrg env orgName = Inr repos" and "os_Getwd env = Inr cwd"
      and "ioutil_TempDir env cwd ''tmp_'' = Inr tmpDir"
      and "\<not> panicked (CrawlOrg_with detect env orgName)"
  shows "elems (report (CrawlOrg_with detect env orgName)) =
           filter (\<lambda>sr. Files sr \<noteq> None)
             (List.map_filter (scanned detect env (filepath_Base env tmpDir)) repos) \<and>
         (\<forall>sr \<in> set (elems (report (CrawlOrg_with detect env orgName))). elems (Files sr) \<noteq> [])"
proof -
  let ?t = "filepath_Base env tmpDir"
  have r: "report (CrawlOrg_with detect env orgName) = fst (forRepos detect env ?t repos None)"
    and p: "panicked (CrawlOrg_with detect env orgName) = snd (snd (forRepos detect env ?t repos None))"
    using assms(1-3) by (simp_all add: CrawlOrg_with_def split_beta)
  from assms(4) p have "\<not> snd (snd (forRepos detect env ?t repos None))" by simp
  from forRepos_elems [OF this] r
  have eq: "elems (report (CrawlOrg_with detect env orgName)) =
           filter (\<lambda>sr. Files sr \<noteq> None) (List.map_filter (scanned detect env ?t) repos)"
    by (simp add: elems_def)
  have "elems (Files sr) \<noteq> []"
    if "sr \<in> set (elems (report (CrawlOrg_with detect env orgName)))" for sr
  proof -
    from that eq have ne: "Files sr \<noteq> None"
      and "sr \<in> set (List.map_filter (scanned detect env ?t) repos)" by auto
    then obtain repo where "scanned detect env ?t repo = Some sr"
      by (auto simp: List.map_filter_def)
    then have "Files sr \<noteq> Some []" by (rule scanned_Files_nonempty)
    with ne show ?thesis by (cases "Files sr") (auto simp: elems_def)
  qed
  with eq show ?thesis by blast
qed

theorem report_iff_findings_witness:
  "elems (report (CrawlOrg_with example_detect example_env ''org'')) =
     [\<lparr>Name = ''R1'', Files = Some [\<lparr>Path = ''config.yml'',
        Positions = Some [\<lparr>Start = 0, End = 16\<rparr>]\<rparr>]\<rparr>] \<and>
   scanned example_detect example_env ''tmp_1'' example_R3 = Some \<lparr>Name = ''R3'', Files = None\<rparr> \<and>
   List.map_filter (scanned example_detect example_env (filepath_Base example_env ''/w/tmp_1''))
     example_repos =
     [\<lparr>Name = ''R1'', Files = Some [\<lparr>Path = ''config.yml'',
        Positions = Some [\<lparr>Start = 0, End = 16\<rparr>]\<rparr>]\<rparr>, \<lparr>Name = ''R3'', Files = None\<rparr>]"
proof -
  have l: "github_ListByOrg example_env ''org'' = Inr example_repos"
    and g: "os_Getwd example_env = Inr ''/w''"
    and t: "ioutil_TempDir example_env ''/w'' ''tmp_'' = Inr ''/w/tmp_1''"
    by (simp_all add: example_env_fields)
  have np: "\<not> panicked (CrawlOrg_with example_detect example_env ''org'')"
    by (simp add: example_run)
  have b: "filepath_Base example_env ''/w/tmp_1'' = ''tmp_1''"
    by (simp add: example_env_fields example_Base_def)
  have s1: "scanned example_detect example_env ''tmp_1'' example_R1 =
      Some \<lparr>Name = ''R1'', Files = Some [\<lparr>Path = ''config.yml'',
        Positions = Some [\<lparr>Start = 0, End = 16\<rparr>]\<rparr>]\<rparr>"
    by (simp add: scanned_def example_R1_def example_scan_R1 example_env_fields)
  have s2: "scanned example_detect example_env ''tmp_1'' example_R2 = None"
    by (simp add: scanned_def example_R2_def example_env_fields)
  have s3: "scanned example_detect example_env ''tmp_1'' example_R3 = Some \<lparr>Name = ''R3'', Files = None\<rparr>"
    by (simp add: scanned_def example_R3_def example_scan_R3 example_env_fields)
  have mf: "List.map_filter (scanned example_detect example_env ''tmp_1'') example_repos =
     [\<lparr>Name = ''R1'', Files = Some [\<lparr>Path = ''config.yml'',
        Positions = Some [\<lparr>Start = 0, End = 16\<rparr>]\<rparr>]\<rparr>, \<lparr>Name = ''R3'', Files = None\<rparr>]"
    by (simp add: example_repos_def List.map_filter_simps s1 s2 s3)
  from report_iff_findings [OF l g t np, THEN conjunct1] mf s3 show ?thesis
    by (simp add: b)
qed

text \<open>
  C4. The manifest must never be scanned: its own relative path belongs to the set of
  ignored paths. The program means this (line 151: "Add our .credignore file so we don't
  check it") and misses it: it reserves \<open>filepath.Join(repoName, credIgnoreFile)\<close>, while
  the walk looks a file up by its path relative to \<open>repoDir\<close>. In \<open>R3\<close> the manifest
  exists, its relative path \<open>.credignore\<close> is not in \<open>filesToIgnore\<close>, and the walk reads
  it and hands it to the detector; a detector that flags it puts it in a finding.
\<close>

theorem manifest_is_scanned:
  "os_Stat example_env (filepath_Join example_env [''tmp_1'', ''R3'', credIgnoreFile]) = None \<and>
   filepath_Rel example_env ''tmp_1/R3'' ''tmp_1/R3/.credignore'' = Inr ''.credignore'' \<and>
   ''.credignore'' \<notin> fst (filesToIgnoreOf example_env ''tmp_1'' ''R3'') \<and>
   walkFunc HasSensitive example_env ''tmp_1/R3''
      (fst (filesToIgnoreOf example_env ''tmp_1'' ''R3'')) \<lparr>Name = ''R3'', Files = None\<rparr>
      (example_file ''tmp_1/R3/.credignore'') =
     (\<lparr>Name = ''R3'', Files = None\<rparr>, [E_ReadFile ''tmp_1/R3/.credignore''], Returns None) \<and>
   walkFunc (\<lambda>fileData. Some [\<lparr>Start = 0, End = int (length fileData)\<rparr>]) example_env ''tmp_1/R3''
      (fst (filesToIgnoreOf example_env ''tmp_1'' ''R3'')) \<lparr>Name = ''R3'', Files = None\<rparr>
      (example_file ''tmp_1/R3/.credignore'') =
     (\<lparr>Name = ''R3'', Files = Some [\<lparr>Path = ''.credignore'',
         Positions = Some [\<lparr>Start = 0, End = 15\<rparr>]\<rparr>]\<rparr>,
      [E_ReadFile ''tmp_1/R3/.credignore''], Returns None)"
  by (simp add: example_ignore_R3 walkFunc_def example_file_def example_env_fields example_Rel_def
      example_Join_def credIgnoreFile_def)
     (simp add: example_env_def HasSensitive_def go_append_def)


text \<open>
  The other half of the sentence, that the path is reserved whether or not the manifest
  exists: \<open>R1\<close> has no manifest, \<open>os.Stat\<close> fails, and \<open>filesToIgnore\<close> is empty.
\<close>

lemma manifest_path_not_reserved_when_absent:
  "os_Stat example_env (filepath_Join example_env [''tmp_1'', ''R1'', credIgnoreFile]) = Some ''no such file'' \<and>
   credIgnoreFile \<notin> fst (filesToIgnoreOf example_env ''tmp_1'' ''R1'') \<and>
   filepath_Join example_env [''R1'', credIgnoreFile] \<notin> fst (filesToIgnoreOf example_env ''tmp_1'' ''R1'')"
  by (simp add: example_ignore_R1) (simp add: example_env_def example_Join_def credIgnoreFile_def)

text \<open>
  C5. A clone failure costs only the repository that failed. If the clone of a listed
  repository \<open>b\<close> (with a name and a clone URL) fails, the run ends with the same report,
  and panics or not, as the run whose listing does not have \<open>b\<close>: the loop goes on to the
  repositories after \<open>b\<close>, and those before and after it contribute what they would
  have contributed alone. The detector is arbitrary.
\<close>

theorem clone_failure_isolated:
  assumes "os_Getwd env = Inr cwd" and "ioutil_TempDir env cwd ''tmp_'' = Inr tmpDir"
      and "Repository_Name b = Some repoName" and "repoName \<noteq> []"
      and "Repository_CloneURL b = Some cloneURL" and "cloneURL \<noteq> []"
      and "git_PlainCloneContext env (filepath_Join env [filepath_Base env tmpDir, repoName])
             cloneURL = Some err"
  shows "report (CrawlOrg_with detect (env\<lparr>github_ListByOrg := \<lambda>orgName. Inr (rs1 @ b # rs2)\<rparr>) orgName) =
           report (CrawlOrg_with detect (env\<lparr>github_ListByOrg := \<lambda>orgName. Inr (rs1 @ rs2)\<rparr>) orgName) \<and>
         panicked (CrawlOrg_with detect (env\<lparr>github_ListByOrg := \<lambda>orgName. Inr (rs1 @ b # rs2)\<rparr>) orgName) =
           panicked (CrawlOrg_with detect (env\<lparr>github_ListByOrg := \<lambda>orgName. Inr (rs1 @ rs2)\<rparr>) orgName)"
proof -
  let ?t = "filepath_Base env tmpDir"
  have body: "loopBody detect env ?t b srs =
      (srs, [E_PlainCloneContext (filepath_Join env [?t, repoName]) cloneURL,
             E_Log ErrorLevel ''CrawlOrg: PlainCloneContext: ''], False)" for srs
    using assms(3-7) by (rule loopBody_clone_fails)
  have "fst (forRepos detect env ?t (rs1 @ b # rs2) None) =
          fst (forRepos detect env ?t (rs1 @ rs2) None) \<and>
        snd (snd (forRepos detect env ?t (rs1 @ b # rs2) None)) =
          snd (snd (forRepos detect env ?t (rs1 @ rs2) None))"
    by (rule forRepos_skip) (simp_all add: body)
  then show ?thesis
    by (simp add: CrawlOrg_with_listing [OF assms(1,2)])
qed

theorem clone_failure_isolated_witness:
  "report (CrawlOrg_with example_detect
      (example_env\<lparr>github_ListByOrg := \<lambda>orgName. Inr ([example_R3] @ example_R2 # [example_R1])\<rparr>)
      ''org'') =
     Some [\<lparr>Name = ''R1'', Files = Some [\<lparr>Path = ''config.yml'',
       Positions = Some [\<lparr>Start = 0, End = 16\<rparr>]\<rparr>]\<rparr>] \<and>
   \<not> panicked (CrawlOrg_with example_detect
      (example_env\<lparr>github_ListByOrg := \<lambda>orgName. Inr ([example_R3] @ example_R2 # [example_R1])\<rparr>)
      ''org'')"
proof -
  have g: "os_Getwd example_env = Inr ''/w''"
    and t: "ioutil_TempDir example_env ''/w'' ''tmp_'' = Inr ''/w/tmp_1''"
    by (simp_all add: example_env_fields)
  have n: "Repository_Name example_R2 = Some ''R2''" and ne: "''R2'' \<noteq> []"
    and u: "Repository_CloneURL example_R2 = Some ''u2''" and ue: "''u2'' \<noteq> []"
    by (simp_all add: example_R2_def)
  have c: "git_PlainCloneContext example_env
             (filepath_Join example_env [filepath_Base example_env ''/w/tmp_1'', ''R2'']) ''u2'' =
           Some ''clone failed''"
    by (simp add: example_env_fields)
  have b: "example_Base ''/w/tmp_1'' = ''tmp_1''" by (simp add: example_Base_def)
  have without: "report (CrawlOrg_with example_detect
      (example_env\<lparr>github_ListByOrg := \<lambda>orgName. Inr ([example_R3] @ [example_R1])\<rparr>) ''org'') =
     Some [\<lparr>Name = ''R1'', Files = Some [\<lparr>Path = ''config.yml'',
       Positions = Some [\<lparr>Start = 0, End = 16\<rparr>]\<rparr>]\<rparr>] \<and>
    \<not> panicked (CrawlOrg_with example_detect
      (example_env\<lparr>github_ListByOrg := \<lambda>orgName. Inr ([example_R3] @ [example_R1])\<rparr>) ''org'')"
    by (simp add: CrawlOrg_with_listing [OF g t] example_env_fields b example_run_R3_R1
        del: forRepos.simps)
  from clone_failure_isolated [OF g t n ne u ue c, where detect = example_detect
      and ?rs1.0 = "[example_R3]" and ?rs2.0 = "[example_R1]" and orgName = "''org''"] without
  show ?thesis by simp
qed

text \<open>
  C6. When the listing fails, or the working directory cannot be determined, or the
  temporary directory cannot be created, \<open>CrawlOrg\<close> returns a nil report at once: no
  repository is cloned, no tree is walked, no file is read.
\<close>

theorem CrawlOrg_fatal_abort:
  assumes "github_ListByOrg env orgName = Inl e1 \<or> os_Getwd env = Inl e2 \<or>
           (os_Getwd env = Inr cwd \<and> ioutil_TempDir env cwd ''tmp_'' = Inl e3)"
  shows "report (CrawlOrg_with detect env orgName) = None \<and>
         \<not> panicked (CrawlOrg_with detect env orgName) \<and>
         (\<forall>d u. E_PlainCloneContext d u \<notin> set (trace (CrawlOrg_with detect env orgName))) \<and>
         (\<forall>d. E_Walk d \<notin> set (trace (CrawlOrg_with detect env orgName))) \<and>
         (\<forall>p. E_ReadFile p \<notin> set (trace (CrawlOrg_with detect env orgName)))"
  using assms by (auto simp: CrawlOrg_with_def split: sum.splits)

theorem CrawlOrg_fatal_abort_witness:
  "report (CrawlOrg_with example_detect (example_env\<lparr>github_ListByOrg := \<lambda>orgName. Inl ''rate limited''\<rparr>) ''org'') = None \<and>
   (\<forall>d u. E_PlainCloneContext d u \<notin> set (trace (CrawlOrg_with example_detect
      (example_env\<lparr>github_ListByOrg := \<lambda>orgName. Inl ''rate limited''\<rparr>) ''org''))) \<and>
   report (CrawlOrg_with example_detect (example_env\<lparr>ioutil_TempDir := \<lambda>dir prefix. Inl ''disk full''\<rparr>) ''org'') = None \<and>
   (\<forall>d u. E_PlainCloneContext d u \<notin> set (trace (CrawlOrg_with example_detect
      (example_env\<lparr>ioutil_TempDir := \<lambda>dir prefix. Inl ''disk full''\<rparr>) ''org'')))"
proof -
  have l: "github_ListByOrg (example_env\<lparr>github_ListByOrg := \<lambda>orgName. Inl ''rate limited''\<rparr>) ''org'' =
             Inl ''rate limited''"
    by simp
  have t: "os_Getwd (example_env\<lparr>ioutil_TempDir := \<lambda>dir prefix. Inl ''disk full''\<rparr>) = Inr ''/w'' \<and>
           ioutil_TempDir (example_env\<lparr>ioutil_TempDir := \<lambda>dir prefix. Inl ''disk full''\<rparr>) ''/w'' ''tmp_'' =
             Inl ''disk full''"
    by (simp add: example_env_def)
  from CrawlOrg_fatal_abort [where detect = example_detect, OF disjI1, OF l]
       CrawlOrg_fatal_abort [where detect = example_detect, OF disjI2, OF disjI2, OF t]
  show ?thesis by simp
qed

text \<open>
  C7. A file is excluded exactly when its relative path is a line of the manifest. The
  lines are kept as the claim says (\<open>manifest_lines_in_filesToIgnore\<close>) and the lookup is
  by equality of strings (\<open>walkFunc_reads_iff_not_ignored\<close>), but the key the program adds
  for the manifest is \<open>filepath.Join(repoName, credIgnoreFile)\<close>: in \<open>R3\<close> the file
  \<open>R3/.credignore\<close>, one directory down, is skipped without being read, and no line of the
  manifest names it.
\<close>

theorem excluded_without_manifest_line:
  "strings_Split (''# fake'' @ [CHR 0x0A] @ ''fake.key'') = [''# fake'', ''fake.key''] \<and>
   ioutil_ReadFile example_env (filepath_Join example_env [''tmp_1'', ''R3'', credIgnoreFile]) =
     Inr (''# fake'' @ [CHR 0x0A] @ ''fake.key'') \<and>
   filepath_Rel example_env ''tmp_1/R3'' ''tmp_1/R3/R3/.credignore'' = Inr ''R3/.credignore'' \<and>
   walkFunc example_detect example_env ''tmp_1/R3''
      (fst (filesToIgnoreOf example_env ''tmp_1'' ''R3'')) \<lparr>Name = ''R3'', Files = None\<rparr>
      (example_file ''tmp_1/R3/R3/.credignore'') =
     (\<lparr>Name = ''R3'', Files = None\<rparr>, [], Returns None)"
  by (simp add: example_ignore_R3 walkFunc_def example_file_def example_env_fields example_Rel_def
      example_Join_def credIgnoreFile_def)
     (simp add: example_env_def)

text \<open>
  C8. A file that cannot be read yields no finding and does not stop the walk: \<open>f\<close>
  returns nil with \<open>sensitiveRepo\<close> as it was, and the walk ends with the same
  \<open>sensitiveRepo\<close>, in the same way, as the walk without that file. The detector is
  arbitrary.
\<close>

theorem read_failure_skips_only_that_file:
  assumes "wc_info c = Some info" and "\<not> IsDir info"
      and "ioutil_ReadFile env (wc_path c) = Inl err"
  shows "walkFunc detect env repoDir ig s c =
           (s, fst (snd (walkFunc detect env repoDir ig s c)), Returns None) \<and>
         fst (filepath_Walk (walkFunc detect env repoDir ig) (cs1 @ c # cs2) s0) =
           fst (filepath_Walk (walkFunc detect env repoDir ig) (cs1 @ cs2) s0) \<and>
         snd (snd (filepath_Walk (walkFunc detect env repoDir ig) (cs1 @ c # cs2) s0)) =
           snd (snd (filepath_Walk (walkFunc detect env repoDir ig) (cs1 @ cs2) s0))"
proof -
  have st: "fst (walkFunc detect env repoDir ig s c) = s" for s
    using assms by (simp add: walkFunc_def split: sum.splits)
  have ex: "snd (snd (walkFunc detect env repoDir ig s c)) = Returns None" for s
    using assms by (simp add: walkFunc_def split: sum.splits)
  have "walkFunc detect env repoDir ig s c =
           (s, fst (snd (walkFunc detect env repoDir ig s c)), Returns None)"
    using st [of s] ex [of s] by (cases "walkFunc detect env repoDir ig s c") simp
  with filepath_Walk_skip [of "walkFunc detect env repoDir ig" c cs1 cs2 s0, OF st ex]
  show ?thesis by simp
qed

theorem read_failure_skips_only_that_file_witness:
  "fst (filepath_Walk (walkFunc example_detect example_env ''tmp_1/R1'' {})
         ([example_dir ''tmp_1/R1''] @ example_file ''tmp_1/R1/a.lock'' #
          [example_file ''tmp_1/R1/config.yml'', example_file ''tmp_1/R1/notes''])
         \<lparr>Name = ''R1'', Files = None\<rparr>) =
     \<lparr>Name = ''R1'', Files = Some [\<lparr>Path = ''config.yml'',
        Positions = Some [\<lparr>Start = 0, End = 16\<rparr>]\<rparr>]\<rparr> \<and>
   snd (snd (filepath_Walk (walkFunc example_detect example_env ''tmp_1/R1'' {})
         ([example_dir ''tmp_1/R1''] @ example_file ''tmp_1/R1/a.lock'' #
          [example_file ''tmp_1/R1/config.yml'', example_file ''tmp_1/R1/notes''])
         \<lparr>Name = ''R1'', Files = None\<rparr>)) = Returns None"
proof -
  have i: "wc_info (example_file ''tmp_1/R1/a.lock'') = Some (FileInfo False)"
    by (simp add: example_file_def)
  have d: "\<not> IsDir (FileInfo False)" by simp
  have r: "ioutil_ReadFile example_env (wc_path (example_file ''tmp_1/R1/a.lock'')) = Inl ''cannot read''"
    by (simp add: example_file_def example_env_def)
  have rest: "filepath_Walk (walkFunc example_detect example_env ''tmp_1/R1'' {})
         ([example_dir ''tmp_1/R1''] @
          [example_file ''tmp_1/R1/config.yml'', example_file ''tmp_1/R1/notes''])
         \<lparr>Name = ''R1'', Files = None\<rparr>
       = (\<lparr>Name = ''R1'', Files = Some [\<lparr>Path = ''config.yml'',
            Positions = Some [\<lparr>Start = 0, End = 16\<rparr>]\<rparr>]\<rparr>,
          [E_ReadFile ''tmp_1/R1/config.yml'', E_ReadFile ''tmp_1/R1/notes''], Returns None)"
    by (simp add: walkFunc_def example_env_def example_Rel_def example_detect_def
        example_dir_def example_file_def go_append_def Let_def)
  from read_failure_skips_only_that_file [OF i d r, where detect = example_detect
      and repoDir = "''tmp_1/R1''" and ig = "{}" and ?cs1.0 = "[example_dir ''tmp_1/R1'']"
      and ?cs2.0 = "[example_file ''tmp_1/R1/config.yml'', example_file ''tmp_1/R1/notes'']"
      and ?s0.0 = "\<lparr>Name = ''R1'', Files = None\<rparr>"] rest
  show ?thesis by simp
qed

text \<open>
  C9. The temporary directory is removed on every way out. A run that did not create it
  cloned nothing. A run that created \<open>tmpDir\<close> ends, whether it returns or panics, with
  \<open>os.RemoveAll\<close> on the path \<open>ioutil.TempDir\<close> returned, and every clone it made went to
  \<open>filepath.Join(filepath.Base(tmpDir), repoName)\<close>.
\<close>

theorem CrawlOrg_removes_tmpDir:
  "case createdTmpDir env orgName of
     None \<Rightarrow> \<forall>d u. E_PlainCloneContext d u \<notin> set (trace (CrawlOrg_with detect env orgName))
   | Some tmpDir \<Rightarrow>
       last (trace (CrawlOrg_with detect env orgName)) = E_RemoveAll tmpDir \<and>
       (\<forall>d u. E_PlainCloneContext d u \<in> set (trace (CrawlOrg_with detect env orgName)) \<longrightarrow>
          (\<exists>repoName. d = filepath_Join env [filepath_Base env tmpDir, repoName]))"
proof (cases "createdTmpDir env orgName")
  case None
  then show ?thesis
    by (auto simp: createdTmpDir_def CrawlOrg_with_def split: sum.splits)
next
  case (Some tmpDir)
  then obtain repos cwd where pre: "github_ListByOrg env orgName = Inr repos"
      "os_Getwd env = Inr cwd" "ioutil_TempDir env cwd ''tmp_'' = Inr tmpDir"
    by (auto simp: createdTmpDir_def split: sum.splits)
  let ?l = "forRepos detect env (filepath_Base env tmpDir) repos None"
  have tr: "trace (CrawlOrg_with detect env orgName) =
      [E_ListByOrg orgName, E_Getwd, E_TempDir cwd ''tmp_''] @ fst (snd ?l) @ [E_RemoveAll tmpDir]"
    using pre by (simp add: CrawlOrg_with_def split_beta)
  have "\<exists>repoName. d = filepath_Join env [filepath_Base env tmpDir, repoName]"
    if "E_PlainCloneContext d u \<in> set (trace (CrawlOrg_with detect env orgName))" for d u
  proof -
    from that tr have "E_PlainCloneContext d u \<in> set (fst (snd ?l))" by auto
    then show ?thesis by (rule forRepos_clone_dirs)
  qed
  with tr Some show ?thesis by simp
qed

theorem CrawlOrg_removes_tmpDir_witness:
  "last (trace (CrawlOrg_with example_detect example_env ''org'')) = E_RemoveAll ''/w/tmp_1'' \<and>
   E_PlainCloneContext ''tmp_1/R1'' ''u1'' \<in> set (trace (CrawlOrg_with example_detect example_env ''org'')) \<and>
   (\<exists>repoName. ''tmp_1/R1'' = filepath_Join example_env [filepath_Base example_env ''/w/tmp_1'', repoName]) \<and>
   panicked (CrawlOrg_with example_detect example_env_lstat ''org'') \<and>
   last (trace (CrawlOrg_with example_detect example_env_lstat ''org'')) = E_RemoveAll ''/w/tmp_1''"
proof -
  have c: "createdTmpDir example_env ''org'' = Some ''/w/tmp_1''"
    by (simp add: createdTmpDir_def example_env_fields)
  have c': "createdTmpDir example_env_lstat ''org'' = Some ''/w/tmp_1''"
    by (simp add: createdTmpDir_def example_env_lstat_def example_env_def)
  have m: "E_PlainCloneContext ''tmp_1/R1'' ''u1'' \<in> set (trace (CrawlOrg_with example_detect example_env ''org''))"
    by (simp add: example_run)
  from CrawlOrg_removes_tmpDir [where env = example_env and orgName = "''org''" and detect = example_detect] c m
  have a: "last (trace (CrawlOrg_with example_detect example_env ''org'')) = E_RemoveAll ''/w/tmp_1'' \<and>
   (\<exists>repoName. ''tmp_1/R1'' = filepath_Join example_env [filepath_Base example_env ''/w/tmp_1'', repoName])"
    by (simp only: option.case)
  from CrawlOrg_removes_tmpDir [where env = example_env_lstat and orgName = "''org''" and detect = example_detect] c'
  have b: "last (trace (CrawlOrg_with example_detect example_env_lstat ''org'')) = E_RemoveAll ''/w/tmp_1''"
    by (simp only: option.case)
  from a b m example_lstat_panics show ?thesis by simp
qed

end
